theory Spec2Isabelle
  imports Complex_Main "HOL-Library.AList" "HOL-Library.Char_ord" "HOL-Library.List_Lexorder"
begin

section \<open>Python values and exceptions\<close>

text \<open>
  The parser of \<^verbatim>\<open>ecad/ipc2581.py\<close> is modelled function by function. A raised
  exception is the left summand of the result, a returned value the right one.
  A Python float is a real number here and the result of an arithmetic
  operation is not rounded. Where an operation of the file raises on a result
  out of the float range, the model raises too.
\<close>

datatype pyerr =
    AttributeError
  | IndexError
  | KeyError
  | TypeError
  | ValueError
  | UnboundLocalError
  | OverflowError
  | ExpatError string
  | OSError

definition ebind :: "pyerr + 'a \<Rightarrow> ('a \<Rightarrow> pyerr + 'b) \<Rightarrow> pyerr + 'b" where
  "ebind m f = (case m of Inl e \<Rightarrow> Inl e | Inr x \<Rightarrow> f x)"

text \<open>Reading a local variable that no executed statement has assigned.\<close>

definition local_var :: "'a option \<Rightarrow> pyerr + 'a" where
  "local_var v = (case v of None \<Rightarrow> Inl UnboundLocalError | Some x \<Rightarrow> Inr x)"

section \<open>The document tree\<close>

text \<open>
  What \<^verbatim>\<open>xml.dom.minidom\<close> hands to the parser: a document holding a list of
  child nodes; an element with a tag name, attributes and child nodes; every
  other kind of node (text, comment, processing instruction, document type),
  which has neither a tag name nor attributes.
\<close>

datatype element =
    Element (tagName: string) (attributes: "(string \<times> string) list") (childNodes: "node list")
and node =
    ElementNode element
  | OtherNode

datatype document = Document (doc_childNodes: "node list")

text \<open>\<^verbatim>\<open>getAttribute\<close> returns the empty string for an attribute that is not there.\<close>

definition getAttribute :: "element \<Rightarrow> string \<Rightarrow> string" where
  "getAttribute e name = (case map_of (attributes e) name of None \<Rightarrow> [] | Some v \<Rightarrow> v)"

text \<open>
  The helper behind \<^verbatim>\<open>getElementsByTagName\<close>: the descendant elements of that
  name, in document order.
\<close>

fun elements_by_tagName :: "string \<Rightarrow> node list \<Rightarrow> element list" where
  "elements_by_tagName name [] = []"
| "elements_by_tagName name (OtherNode # ns) = elements_by_tagName name ns"
| "elements_by_tagName name (ElementNode (Element t a cs) # ns) =
     (if name = ''*'' \<or> t = name then [Element t a cs] else [])
       @ elements_by_tagName name cs @ elements_by_tagName name ns"

definition getElementsByTagName :: "element \<Rightarrow> string \<Rightarrow> element list" where
  "getElementsByTagName e name = elements_by_tagName name (childNodes e)"

definition doc_getElementsByTagName :: "document \<Rightarrow> string \<Rightarrow> element list" where
  "doc_getElementsByTagName pcb name = elements_by_tagName name (doc_childNodes pcb)"

definition firstChild :: "document \<Rightarrow> node option" where
  "firstChild pcb = (case doc_childNodes pcb of [] \<Rightarrow> None | n # _ \<Rightarrow> Some n)"

text \<open>
  Looking a method up by name on a document object. The document class defines
  \<^verbatim>\<open>getElementsByTagName\<close>; any other name of this shape is not an attribute
  of the object, and the lookup raises.
\<close>

definition document_method :: "string \<Rightarrow> pyerr + (document \<Rightarrow> string \<Rightarrow> element list)" where
  "document_method m =
     (if m = ''getElementsByTagName'' then Inr doc_getElementsByTagName
      else Inl AttributeError)"

text \<open>Subscript 0 of a node list.\<close>

definition item0 :: "'a list \<Rightarrow> pyerr + 'a" where
  "item0 xs = (case xs of [] \<Rightarrow> Inl IndexError | x # _ \<Rightarrow> Inr x)"

section \<open>Values, dictionaries, log records\<close>

datatype pyval = PNone | PNum real | PStr string | PList "pyval list"

text \<open>
  A dictionary is an association list in insertion order; \<open>AList.update\<close>
  overwrites the value of a key that is present and appends a new key, as
  assignment to a key and \<^verbatim>\<open>dict.update\<close> do. A drawing is a dictionary from
  key names to values.
\<close>

type_synonym drawing = "(string \<times> pyval) list"

datatype logrec = LogError string | LogInfo string

section \<open>Arc conversion\<close>

text \<open>
  The local variables of \<^verbatim>\<open>convert_PolyStepCurve\<close>; \<open>None\<close> is a name that has
  not been bound yet.
\<close>

record curve_locals =
  radius :: "real option"
  angle1 :: "real option"
  angle2 :: "real option"
  startAngle :: "real option"
  endAngle :: "real option"

definition no_locals :: curve_locals where
  "no_locals = \<lparr>radius = None, angle1 = None, angle2 = None,
                 startAngle = None, endAngle = None\<rparr>"

text \<open>
  The power operator on floats raises when a finite operand has a result out
  of range; addition, subtraction and division give an infinity instead and
  raise nothing. The least magnitude that rounds to an infinity is
  \<open>float_overflow\<close>; a real of at least that magnitude stands for an infinity.
\<close>

definition float_overflow :: real where
  "float_overflow = 2 ^ 1024 - 2 ^ 970"

definition float_finite :: "real \<Rightarrow> bool" where
  "float_finite x \<longleftrightarrow> \<bar>x\<bar> < float_overflow"

definition float_pow2 :: "real \<Rightarrow> pyerr + real" where
  "float_pow2 x =
     (if float_finite x \<and> \<not> float_finite (x ^ 2) then Inl OverflowError
      else Inr (x ^ 2))"

text \<open>
  Line 169, the right-hand side: the square of the first component is taken
  before the square of the second.
\<close>

definition spoke_radius :: "real \<Rightarrow> real \<Rightarrow> pyerr + real" where
  "spoke_radius dX dY =
     ebind (float_pow2 \<bar>dX\<bar>) (\<lambda>a.
     ebind (float_pow2 \<bar>dY\<bar>) (\<lambda>b. Inr (sqrt (a + b))))"

text \<open>Lines 154 to 178: the spoke from the start point to the centre.\<close>

definition start_spoke :: "real \<Rightarrow> real \<Rightarrow> curve_locals \<Rightarrow> pyerr + curve_locals" where
  "start_spoke dX1 dY1 l =
     (if dX1 = 0 \<or> dY1 = 0 then
        (if dX1 = 0 then
           (if dY1 > 0 then Inr (l\<lparr>radius := Some \<bar>dY1\<bar>, angle1 := Some 270\<rparr>)
            else Inr (l\<lparr>radius := Some \<bar>dY1\<bar>, angle1 := Some 90\<rparr>))
         else
           (if dX1 > 0 then Inr (l\<lparr>radius := Some \<bar>dX1\<bar>, angle1 := Some 0\<rparr>)
            else Inr (l\<lparr>radius := Some \<bar>dX1\<bar>, angle1 := Some 180\<rparr>)))
      else
        ebind (spoke_radius dX1 dY1) (\<lambda>r.
          (let a1 = arctan (\<bar>dX1\<bar> / \<bar>dY1\<bar>) * (180 / pi);
               l' = l\<lparr>radius := Some r, angle1 := Some a1\<rparr>
           in if dX1 > 0 \<and> dY1 > 0 then Inr (l'\<lparr>startAngle := Some (270 + a1)\<rparr>)
              else if dX1 < 0 \<and> dY1 > 0 then Inr (l'\<lparr>startAngle := Some (270 - a1)\<rparr>)
              else if dX1 < 0 \<and> dY1 < 0 then Inr (l'\<lparr>startAngle := Some (90 + a1)\<rparr>)
              else Inr (l'\<lparr>startAngle := Some (90 - a1)\<rparr>))))"

text \<open>Lines 180 to 203: the spoke from the end point to the centre.\<close>

definition end_spoke :: "real \<Rightarrow> real \<Rightarrow> curve_locals \<Rightarrow> curve_locals" where
  "end_spoke dX2 dY2 l =
     (if dX2 = 0 \<or> dY2 = 0 then
        (if dX2 = 0 then
           (if dY2 > 0 then l\<lparr>radius := Some \<bar>dY2\<bar>, angle2 := Some 270\<rparr>
            else l\<lparr>radius := Some \<bar>dY2\<bar>, angle2 := Some 90\<rparr>)
         else
           (if dX2 > 0 then l\<lparr>radius := Some \<bar>dX2\<bar>, angle2 := Some 0\<rparr>
            else l\<lparr>radius := Some \<bar>dX2\<bar>, angle2 := Some 180\<rparr>))
      else
        (let a2 = arctan (\<bar>dX2\<bar> / \<bar>dY2\<bar>) * (180 / pi);
             l' = l\<lparr>angle2 := Some a2\<rparr>
         in if dX2 > 0 \<and> dY2 > 0 then l'\<lparr>endAngle := Some (270 + a2)\<rparr>
            else if dX2 < 0 \<and> dY2 > 0 then l'\<lparr>endAngle := Some (270 - a2)\<rparr>
            else if dX2 < 0 \<and> dY2 < 0 then l'\<lparr>endAngle := Some (90 + a2)\<rparr>
            else l'\<lparr>endAngle := Some (90 - a2)\<rparr>))"

text \<open>
  The list display of the return statement reads its three names from left to
  right; the first unbound one raises.
\<close>

definition convert_PolyStepCurve ::
  "real \<Rightarrow> real \<Rightarrow> real \<Rightarrow> real \<Rightarrow> real \<Rightarrow> real \<Rightarrow> string \<Rightarrow> pyerr + (real \<times> real \<times> real)" where
  "convert_PolyStepCurve startX startY ctrX ctrY endX endY cw =
     (let dX1 = ctrX - startX;
          dY1 = ctrY - startY;
          dX2 = ctrX - endX;
          dY2 = ctrY - endY
      in ebind (start_spoke dX1 dY1 no_locals) (\<lambda>l1.
           (let l = end_spoke dX2 dY2 l1
            in if cw = ''true'' then
                 ebind (local_var (radius l)) (\<lambda>r.
                 ebind (local_var (startAngle l)) (\<lambda>a.
                 ebind (local_var (endAngle l)) (\<lambda>b. Inr (r, a, b))))
               else
                 ebind (local_var (radius l)) (\<lambda>r.
                 ebind (local_var (endAngle l)) (\<lambda>b.
                 ebind (local_var (startAngle l)) (\<lambda>a. Inr (r, b, a)))))))"

section \<open>Table builders and validation\<close>

text \<open>\<^verbatim>\<open>get_Line_Widths\<close>: the loop body and the loop over the line entries.\<close>

fun line_widths_loop ::
  "(string \<times> string) list \<Rightarrow> element list \<Rightarrow> pyerr + (string \<times> string) list" where
  "line_widths_loop lines [] = Inr lines"
| "line_widths_loop lines (l # ls) =
     ebind (item0 (getElementsByTagName l ''LineDesc'')) (\<lambda>d.
       line_widths_loop
         (AList.update (getAttribute l ''id'') (getAttribute d ''lineWidth'') lines) ls)"

definition get_Line_Widths :: "document \<Rightarrow> pyerr + (string \<times> string) list" where
  "get_Line_Widths pcb = line_widths_loop [] (doc_getElementsByTagName pcb ''EntryLineDesc'')"

definition COMPATIBLE_IPC_REV :: string where
  "COMPATIBLE_IPC_REV = ''C''"

text \<open>
  \<^verbatim>\<open>validate_IPC2581\<close> returns the records it logged and its verdict. Reading
  \<^verbatim>\<open>tagName\<close> from a first child that is not an element raises. Strings compare
  lexicographically by character code.
\<close>

definition validate_IPC2581 :: "document \<Rightarrow> pyerr + (logrec list \<times> bool)" where
  "validate_IPC2581 pcb =
     (case firstChild pcb of
        None \<Rightarrow> Inl AttributeError
      | Some OtherNode \<Rightarrow> Inl AttributeError
      | Some (ElementNode fc) \<Rightarrow>
          if tagName fc \<noteq> ''IPC-2581'' then
            Inr ([LogError ''XML header does not specify IPC2581''], False)
          else
            (let IPC_rev = getAttribute fc ''revision''
             in if IPC_rev > COMPATIBLE_IPC_REV then
                  Inr ([LogError ''incompatible IPC2581 revision''], False)
                else Inr ([], True)))"

text \<open>\<^verbatim>\<open>get_Component_Val\<close>: the default is the part attribute.\<close>

fun component_val_loop :: "string \<Rightarrow> element list \<Rightarrow> string" where
  "component_val_loop v [] = v"
| "component_val_loop v (e # es) =
     component_val_loop
       (if getAttribute e ''name'' = ''VALUE'' then getAttribute e ''value'' else v) es"

definition get_Component_Val :: "element \<Rightarrow> string" where
  "get_Component_Val cmp =
     component_val_loop (getAttribute cmp ''part'')
       (getElementsByTagName cmp ''NonstandardAttribute'')"

definition get_Metadata :: "document \<Rightarrow> pyerr + (string \<times> string \<times> string \<times> string)" where
  "get_Metadata pcb =
     ebind (item0 (doc_getElementsByTagName pcb ''StepRef'')) (\<lambda>s.
       Inr (getAttribute s ''name'', [], [], []))"

section \<open>Layer roles\<close>

record layer_refs =
  TopCuRef :: "string option"
  BotCuRef :: "string option"
  TopSilkRef :: "string option"
  BotSilkRef :: "string option"
  TopAsmRef :: "string option"
  BotAsmRef :: "string option"

definition no_layer_refs :: layer_refs where
  "no_layer_refs = \<lparr>TopCuRef = None, BotCuRef = None, TopSilkRef = None,
                     BotSilkRef = None, TopAsmRef = None, BotAsmRef = None\<rparr>"

text \<open>Lines 133 to 142: one round of the loop over the layer declarations.\<close>

definition layer_step :: "layer_refs \<Rightarrow> element \<Rightarrow> layer_refs" where
  "layer_step r Layers =
     (let ls = getAttribute Layers ''side'';
          lf = getAttribute Layers ''layerFunction''
      in if ls = ''TOP'' then
           (if lf = ''DOCUMENT'' then r\<lparr>TopSilkRef := Some (getAttribute Layers ''name'')\<rparr>
            else if lf = ''CONDUCTOR'' then r\<lparr>TopCuRef := Some (getAttribute Layers ''name'')\<rparr>
            else if lf = ''ASSEMBLY'' then r\<lparr>TopAsmRef := Some (getAttribute Layers ''name'')\<rparr>
            else r)
         else if ls = ''BOTTOM'' then
           (if lf = ''DOCUMENT'' then r\<lparr>BotSilkRef := Some (getAttribute Layers ''name'')\<rparr>
            else if lf = ''CONDUCTOR'' then r\<lparr>BotCuRef := Some (getAttribute Layers ''name'')\<rparr>
            else if lf = ''ASSEMBLY'' then r\<lparr>BotAsmRef := Some (getAttribute Layers ''name'')\<rparr>
            else r)
         else r)"

definition get_LayerNames :: "document \<Rightarrow> layer_refs" where
  "get_LayerNames pcb = foldl layer_step no_layer_refs (doc_getElementsByTagName pcb ''Layer'')"

section \<open>Poly-step reconstruction\<close>

text \<open>
  \<^verbatim>\<open>process_PolyStep\<close> carries \<^verbatim>\<open>NewX\<close>, \<^verbatim>\<open>NewY\<close> and the list \<^verbatim>\<open>e\<close> from one
  child node to the next. The conversion \<^verbatim>\<open>float\<close> of an attribute string is
  the parameter \<open>flt\<close>; it raises on a string that is not a number. Every
  call in the file passes the width, so its default value plays no part.
\<close>

definition poly_step ::
  "(string \<Rightarrow> pyerr + real) \<Rightarrow> pyval \<Rightarrow> real \<times> real \<times> drawing list \<Rightarrow> node
     \<Rightarrow> pyerr + (real \<times> real \<times> drawing list)" where
  "poly_step flt width st p =
     (case st of (NewX, NewY, e) \<Rightarrow>
        (case p of
           OtherNode \<Rightarrow> Inr (NewX, NewY, e)
         | ElementNode el \<Rightarrow>
             (let LastX = NewX; LastY = NewY; pname = tagName el
              in if pname = ''PolyBegin'' then
                   ebind (flt (getAttribute el ''x'')) (\<lambda>x.
                   ebind (flt (getAttribute el ''y'')) (\<lambda>y. Inr (x, y, e)))
                 else if pname = ''PolyStepSegment'' then
                   ebind (flt (getAttribute el ''x'')) (\<lambda>x.
                   ebind (flt (getAttribute el ''y'')) (\<lambda>y.
                     Inr (x, y, e @ [[(''type'', PStr ''segment''),
                                      (''start'', PList [PNum LastX, PNum LastY]),
                                      (''end'', PList [PNum x, PNum y]),
                                      (''wdith'', width)]])))
                 else if pname = ''PolyStepCurve'' then
                   ebind (flt (getAttribute el ''x'')) (\<lambda>x.
                   ebind (flt (getAttribute el ''y'')) (\<lambda>y.
                   ebind (flt (getAttribute el ''centerX'')) (\<lambda>CtrX.
                   ebind (flt (getAttribute el ''centerY'')) (\<lambda>CtrY.
                   ebind (convert_PolyStepCurve LastX LastY CtrX CtrY x y
                            (getAttribute el ''clockwise'')) (\<lambda>arc.
                     (case arc of (r, a, b) \<Rightarrow>
                        Inr (x, y, e @ [[(''type'', PStr ''arc''),
                                         (''width'', width),
                                         (''start'', PList [PNum CtrX, PNum CtrY]),
                                         (''radius'', PNum r),
                                         (''startangle'', PNum a),
                                         (''endangle'', PNum b)]])))))))
                 else Inr (NewX, NewY, e))))"

fun poly_loop ::
  "(string \<Rightarrow> pyerr + real) \<Rightarrow> pyval \<Rightarrow> real \<times> real \<times> drawing list \<Rightarrow> node list
     \<Rightarrow> pyerr + (real \<times> real \<times> drawing list)" where
  "poly_loop flt width st [] = Inr st"
| "poly_loop flt width st (p # ps) =
     ebind (poly_step flt width st p) (\<lambda>st'. poly_loop flt width st' ps)"

definition process_PolyStep ::
  "(string \<Rightarrow> pyerr + real) \<Rightarrow> element \<Rightarrow> pyval \<Rightarrow> pyerr + drawing list" where
  "process_PolyStep flt n width =
     ebind (poly_loop flt width (0, 0, []) (childNodes n)) (\<lambda>st.
       (case st of (NewX, NewY, e) \<Rightarrow> Inr e))"

section \<open>Outline and layer drawings\<close>

text \<open>
  Lines 315 to 321 of \<^verbatim>\<open>set_outlineWidth\<close>: the chain of comparisons on the
  unit string. It has no final \<^verbatim>\<open>else\<close>; falling off the end of the function
  returns \<^verbatim>\<open>None\<close>.
\<close>

definition outlineWidth_of_unit :: "string \<Rightarrow> pyval" where
  "outlineWidth_of_unit unit =
     (if unit = ''INCH'' then PNum 0.005
      else if unit = ''MILLIMETER'' then PNum 0.127
      else if unit = ''MICRON'' then PNum 127.0
      else PNone)"

text \<open>
  Line 313 reads the unit through the method name \<^verbatim>\<open>getElementByTagName\<close> of
  the document object.
\<close>

definition set_outlineWidth :: "document \<Rightarrow> pyerr + pyval" where
  "set_outlineWidth pcb =
     ebind (document_method ''getElementByTagName'') (\<lambda>m.
     ebind (item0 (m pcb ''CadHeader'')) (\<lambda>h.
       Inr (outlineWidth_of_unit (getAttribute h ''units''))))"

fun cutouts_loop ::
  "(string \<Rightarrow> pyerr + real) \<Rightarrow> pyval \<Rightarrow> drawing list \<Rightarrow> element list \<Rightarrow> pyerr + drawing list" where
  "cutouts_loop flt w outline [] = Inr outline"
| "cutouts_loop flt w outline (n # ns) =
     ebind (process_PolyStep flt n w) (\<lambda>ps. cutouts_loop flt w (outline @ ps) ns)"

definition get_Board_Outline :: "(string \<Rightarrow> pyerr + real) \<Rightarrow> document \<Rightarrow> pyerr + drawing list" where
  "get_Board_Outline flt pcb =
     ebind (item0 (doc_getElementsByTagName pcb ''Profile'')) (\<lambda>profile.
     ebind (set_outlineWidth pcb) (\<lambda>outline_width.
     ebind (item0 (getElementsByTagName profile ''Polygon'')) (\<lambda>poly.
     ebind (process_PolyStep flt poly outline_width) (\<lambda>ps.
       cutouts_loop flt outline_width ([] @ ps) (getElementsByTagName profile ''Cutout'')))))"

text \<open>
  \<^verbatim>\<open>get_LayerDrawings\<close>: the line-width dictionary is subscripted with the id
  of the polyline's first line reference; a missing key raises.
\<close>

definition dict_item :: "(string \<times> 'v) list \<Rightarrow> string \<Rightarrow> pyerr + 'v" where
  "dict_item d k = (case map_of d k of None \<Rightarrow> Inl KeyError | Some v \<Rightarrow> Inr v)"

definition polyline_step ::
  "(string \<Rightarrow> pyerr + real) \<Rightarrow> (string \<times> string) list \<Rightarrow> drawing list \<Rightarrow> element
     \<Rightarrow> pyerr + drawing list" where
  "polyline_step flt lines drawings poly =
     ebind (item0 (getElementsByTagName poly ''LineDescRef'')) (\<lambda>ref.
     ebind (dict_item lines (getAttribute ref ''id'')) (\<lambda>LineWidth.
     ebind (process_PolyStep flt poly (PStr LineWidth)) (\<lambda>ps. Inr (drawings @ ps))))"

fun polylines_loop ::
  "(string \<Rightarrow> pyerr + real) \<Rightarrow> (string \<times> string) list \<Rightarrow> drawing list \<Rightarrow> element list
     \<Rightarrow> pyerr + drawing list" where
  "polylines_loop flt lines drawings [] = Inr drawings"
| "polylines_loop flt lines drawings (poly # polys) =
     ebind (polyline_step flt lines drawings poly) (\<lambda>ds. polylines_loop flt lines ds polys)"

fun layer_features_loop ::
  "(string \<Rightarrow> pyerr + real) \<Rightarrow> string \<Rightarrow> (string \<times> string) list \<Rightarrow> drawing list
     \<Rightarrow> element list \<Rightarrow> pyerr + drawing list" where
  "layer_features_loop flt layerName lines drawings [] = Inr drawings"
| "layer_features_loop flt layerName lines drawings (Layers # rest) =
     (if getAttribute Layers ''layerRef'' = layerName then
        ebind (polylines_loop flt lines drawings (getElementsByTagName Layers ''Polyline''))
          (\<lambda>ds. layer_features_loop flt layerName lines ds rest)
      else layer_features_loop flt layerName lines drawings rest)"

definition get_LayerDrawings ::
  "(string \<Rightarrow> pyerr + real) \<Rightarrow> document \<Rightarrow> string option \<Rightarrow> (string \<times> string) list
     \<Rightarrow> pyerr + drawing list" where
  "get_LayerDrawings flt pcb layerName lines =
     (case layerName of
        None \<Rightarrow> Inr []
      | Some name \<Rightarrow>
          layer_features_loop flt name lines [] (doc_getElementsByTagName pcb ''LayerFeature''))"

section \<open>Components and the parse\<close>

text \<open>The component entity of the host framework, with the fields the constructor call names.\<close>

record component =
  ref :: string
  val :: string
  footprint :: string
  layer :: string
  attr :: string
  extra_fields :: "(string \<times> string) list"

text \<open>Lines 391 to 404: the body of the loop over the component elements.\<close>

fun extra_fields_loop :: "(string \<times> string) list \<Rightarrow> element list \<Rightarrow> (string \<times> string) list" where
  "extra_fields_loop ef [] = ef"
| "extra_fields_loop ef (n # ns) =
     extra_fields_loop
       (AList.update (getAttribute n ''name'') (getAttribute n ''value'') ef) ns"

definition make_Component :: "element \<Rightarrow> component" where
  "make_Component c =
     (let NSAttr = getElementsByTagName c ''NonstandardAttribute'';
          ef = (if NSAttr \<noteq> [] then extra_fields_loop [] NSAttr else [])
      in \<lparr>ref = getAttribute c ''refDes'',
          val = get_Component_Val c,
          footprint = getAttribute c ''packageRef'',
          layer = getAttribute c ''layerRef'',
          attr = ''Normal'',
          extra_fields = ef\<rparr>)"

definition parse_Components :: "document \<Rightarrow> component list" where
  "parse_Components pcb = map make_Component (doc_getElementsByTagName pcb ''Component'')"

text \<open>
  What the parser takes from outside the file: the conversion \<^verbatim>\<open>float\<close>,
  \<^verbatim>\<open>os.path.abspath\<close>, \<^verbatim>\<open>minidom.parse\<close> on a file name, and two methods.
  \<^verbatim>\<open>get_Shapes\<close> is unfinished in the file (the branch on line 85 has no body)
  and \<^verbatim>\<open>get_Footprints\<close> is not defined in it; both are parameters, each
  returning a value or raising.
\<close>

record ('sh, 'fp) host =
  py_float :: "string \<Rightarrow> pyerr + real"
  abspath :: "string \<Rightarrow> string"
  minidom_parse :: "string \<Rightarrow> pyerr + document"
  get_Shapes :: "document \<Rightarrow> pyerr + 'sh"
  get_Footprints :: "document \<Rightarrow> (string \<times> string) list \<Rightarrow> 'sh \<Rightarrow> pyerr + 'fp"

text \<open>The fields of the parser object that the file reads.\<close>

record parser =
  file_name :: string
  include_tracks :: bool

text \<open>The dictionary \<^verbatim>\<open>pcbdata\<close>; the two keys set under \<^verbatim>\<open>include_tracks\<close> are optional.\<close>

record 'fp pcbdata =
  edges_bbox :: drawing
  edges :: "drawing list"
  silkscreen_F :: "drawing list"
  silkscreen_B :: "drawing list"
  fabrication_F :: "drawing list"
  fabrication_B :: "drawing list"
  footprints :: 'fp
  metadata :: "string \<times> string \<times> string \<times> string"
  bom :: drawing
  font_data :: drawing
  tracks :: "(drawing list \<times> drawing list) option"
  zones :: "(drawing list \<times> drawing list) option"

text \<open>Lines 338 to 410 of \<^verbatim>\<open>_parse\<close>: the extraction that follows validation.\<close>

definition parse_body ::
  "('sh, 'fp) host \<Rightarrow> parser \<Rightarrow> document
     \<Rightarrow> pyerr + (logrec list \<times> 'fp pcbdata option \<times> component list option)" where
  "parse_body h self pcb =
     ebind (get_Line_Widths pcb) (\<lambda>lines_Dict.
     ebind (get_Shapes h pcb) (\<lambda>shape_Dict.
     (let names = get_LayerNames pcb in
     ebind (get_Metadata pcb) (\<lambda>meta.
     ebind (get_Board_Outline (py_float h) pcb) (\<lambda>outline.
     ebind (get_LayerDrawings (py_float h) pcb (TopSilkRef names) lines_Dict) (\<lambda>sF.
     ebind (get_LayerDrawings (py_float h) pcb (BotSilkRef names) lines_Dict) (\<lambda>sB.
     ebind (get_LayerDrawings (py_float h) pcb (TopAsmRef names) lines_Dict) (\<lambda>fF.
     ebind (get_LayerDrawings (py_float h) pcb (BotAsmRef names) lines_Dict) (\<lambda>fB.
     ebind (get_Footprints h pcb lines_Dict shape_Dict) (\<lambda>fps.
     ebind (if include_tracks self then
              ebind (get_LayerDrawings (py_float h) pcb (TopCuRef names) lines_Dict) (\<lambda>tF.
              ebind (get_LayerDrawings (py_float h) pcb (BotCuRef names) lines_Dict) (\<lambda>tB.
                Inr (Some (tF, tB), Some ([], []))))
            else Inr (None, None)) (\<lambda>tz.
       Inr ([LogInfo (''Successfully parsed '' @ file_name self)],
            Some \<lparr>edges_bbox = [], edges = outline,
                   silkscreen_F = sF, silkscreen_B = sB,
                   fabrication_F = fF, fabrication_B = fB,
                   footprints = fps, metadata = meta, bom = [], font_data = [],
                   tracks = fst tz, zones = snd tz\<rparr>,
            Some (parse_Components pcb)))))))))))))"

text \<open>
  \<^verbatim>\<open>_parse\<close>: a file that is not XML and a document that fails validation both
  return the pair of \<^verbatim>\<open>None\<close>; any other exception of the parse propagates.
\<close>

definition private_parse ::
  "('sh, 'fp) host \<Rightarrow> parser
     \<Rightarrow> pyerr + (logrec list \<times> 'fp pcbdata option \<times> component list option)" where
  "private_parse h self =
     (case minidom_parse h (file_name self) of
        Inl (ExpatError m) \<Rightarrow>
          Inr ([LogError (''File '' @ file_name self @ '' does is not contain XML. '' @ m)],
               None, None)
      | Inl e \<Rightarrow> Inl e
      | Inr pcb \<Rightarrow>
          ebind (validate_IPC2581 pcb) (\<lambda>v.
            if \<not> snd v then Inr (fst v, None, None)
            else parse_body h self pcb))"

text \<open>
  \<^verbatim>\<open>get_extra_field_data\<close>: one round of the loop over the components keeps
  the set of field names and the dictionary from reference designator to
  fields. Iterating over \<^verbatim>\<open>None\<close> raises.
\<close>

definition field_data_step ::
  "string set \<times> (string \<times> (string \<times> string) list) list \<Rightarrow> component
     \<Rightarrow> string set \<times> (string \<times> (string \<times> string) list) list" where
  "field_data_step acc c =
     (case acc of (field_set, comp_dict) \<Rightarrow>
        (let ref_fields = (case map_of comp_dict (ref c) of None \<Rightarrow> [] | Some d \<Rightarrow> d)
         in (field_set \<union> set (map fst (extra_fields c)),
             AList.update (ref c)
               (foldl (\<lambda>d kv. AList.update (fst kv) (snd kv) d) ref_fields (extra_fields c))
               comp_dict)))"

definition get_extra_field_data ::
  "('sh, 'fp) host \<Rightarrow> parser \<Rightarrow> string
     \<Rightarrow> pyerr + (string set \<times> (string \<times> (string \<times> string) list) list) option" where
  "get_extra_field_data h self fname =
     (if abspath h fname \<noteq> abspath h (file_name self) then Inr None
      else
        ebind (private_parse h self) (\<lambda>res.
          (case snd (snd res) of
             None \<Rightarrow> Inl TypeError
           | Some components \<Rightarrow> Inr (Some (foldl field_data_step ({}, []) components)))))"

section \<open>Decimal literals\<close>

text \<open>
  A reading of \<^verbatim>\<open>float\<close> on plain decimal literals (an optional sign, digits,
  an optional point and digits), used to run the model on concrete documents.
\<close>

definition digit_of :: "char \<Rightarrow> nat option" where
  "digit_of = map_of
     [(CHR ''0'', 0), (CHR ''1'', 1), (CHR ''2'', 2), (CHR ''3'', 3), (CHR ''4'', 4),
      (CHR ''5'', 5), (CHR ''6'', 6), (CHR ''7'', 7), (CHR ''8'', 8), (CHR ''9'', 9)]"

fun digits_val :: "nat \<Rightarrow> string \<Rightarrow> nat option" where
  "digits_val acc [] = Some acc"
| "digits_val acc (c # cs) =
     (case digit_of c of None \<Rightarrow> None | Some d \<Rightarrow> digits_val (10 * acc + d) cs)"

definition unsigned_dec :: "string \<Rightarrow> pyerr + real" where
  "unsigned_dec s =
     (let ip = takeWhile (\<lambda>c. c \<noteq> CHR ''.'') s;
          rest = dropWhile (\<lambda>c. c \<noteq> CHR ''.'') s;
          fp = (case rest of [] \<Rightarrow> [] | _ # cs \<Rightarrow> cs)
      in if ip = [] \<and> fp = [] then Inl ValueError
         else (case (digits_val 0 ip, digits_val 0 fp) of
                 (Some a, Some b) \<Rightarrow> Inr (real a + real b / 10 ^ length fp)
               | _ \<Rightarrow> Inl ValueError))"

definition float_dec :: "string \<Rightarrow> pyerr + real" where
  "float_dec s =
     (case s of
        [] \<Rightarrow> Inl ValueError
      | c # cs \<Rightarrow>
          if c = CHR ''-'' then ebind (unsigned_dec cs) (\<lambda>x. Inr (- x))
          else if c = CHR ''+'' then unsigned_dec cs
          else unsigned_dec s)"

section \<open>Example documents\<close>

text \<open>Concrete inputs on which the results below are evaluated.\<close>

definition step_el :: "string \<Rightarrow> string \<Rightarrow> string \<Rightarrow> node" where
  "step_el t x y = ElementNode (Element t [(''x'', x), (''y'', y)] [])"

text \<open>
  The unit square as a polygon: a begin point and four line steps, with a
  text node between two of the elements.
\<close>

definition square_poly :: element where
  "square_poly = Element ''Polygon'' []
     [step_el ''PolyBegin'' ''0'' ''0'', OtherNode,
      step_el ''PolyStepSegment'' ''1'' ''0'',
      step_el ''PolyStepSegment'' ''1'' ''1'',
      step_el ''PolyStepSegment'' ''0'' ''1'',
      step_el ''PolyStepSegment'' ''0'' ''0'']"

definition example_host :: "document \<Rightarrow> (unit, unit) host" where
  "example_host doc =
     \<lparr>py_float = float_dec, abspath = (\<lambda>p. p), minidom_parse = (\<lambda>f. Inr doc),
      get_Shapes = (\<lambda>pcb. Inr ()), get_Footprints = (\<lambda>pcb lines shapes. Inr ())\<rparr>"

definition example_parser :: parser where
  "example_parser = \<lparr>file_name = ''board.xml'', include_tracks = False\<rparr>"

definition revision_D_root :: element where
  "revision_D_root = Element ''IPC-2581'' [(''revision'', ''D'')] []"

definition revision_D_doc :: document where
  "revision_D_doc = Document [ElementNode revision_D_root]"

text \<open>A polyline whose line reference names a style that the width table lacks.\<close>

definition dangling_ref :: element where
  "dangling_ref = Element ''LineDescRef'' [(''id'', ''W9'')] []"

definition dangling_polyline :: element where
  "dangling_polyline = Element ''Polyline'' []
     [step_el ''PolyBegin'' ''0'' ''0'',
      step_el ''PolyStepSegment'' ''1'' ''0'',
      ElementNode dangling_ref]"

definition dangling_feature :: element where
  "dangling_feature = Element ''LayerFeature'' [(''layerRef'', ''SILK_TOP'')]
     [ElementNode dangling_polyline]"

definition dangling_doc :: document where
  "dangling_doc = Document [ElementNode (Element ''IPC-2581'' [(''revision'', ''C'')]
     [ElementNode dangling_feature])]"

text \<open>A drill layer on no mapped side, followed by the top copper layer.\<close>

definition drill_layer :: element where
  "drill_layer = Element ''Layer''
     [(''name'', ''DRILL''), (''side'', ''ALL''), (''layerFunction'', ''DRILL'')] []"

definition top_copper_layer :: element where
  "top_copper_layer = Element ''Layer''
     [(''name'', ''L1''), (''side'', ''TOP''), (''layerFunction'', ''CONDUCTOR'')] []"

definition layers_doc :: document where
  "layers_doc = Document [ElementNode (Element ''IPC-2581'' [(''revision'', ''C'')]
     [ElementNode drill_layer, ElementNode top_copper_layer])]"

text \<open>A document whose root element follows a comment, and one that declares inches.\<close>

definition leading_comment_doc :: document where
  "leading_comment_doc = Document [OtherNode, ElementNode (Element ''Board'' [] [])]"

definition inch_doc :: document where
  "inch_doc = Document [ElementNode (Element ''IPC-2581'' [(''revision'', ''C'')]
     [ElementNode (Element ''Ecad'' []
        [ElementNode (Element ''CadHeader'' [(''units'', ''INCH'')] [])])])]"

text \<open>A resistor with a part number and a vendor value attribute.\<close>

definition r1_component :: element where
  "r1_component = Element ''Component'' [(''refDes'', ''R1''), (''part'', ''R1-PN'')]
     [ElementNode (Element ''NonstandardAttribute''
        [(''name'', ''VALUE''), (''value'', ''10k'')] [])]"

section \<open>Arc conversion: results\<close>

text \<open>Squares of moderate numbers stay within the float range.\<close>

lemma float_overflow_big: "2 ^ 1000 < float_overflow"
proof -
  have "(2::real) ^ 970 \<le> 2 ^ 1023" by (rule power_increasing) simp_all
  moreover have "(2::real) ^ 1024 = 2 * 2 ^ 1023" by simp
  moreover have "(2::real) ^ 1000 < 2 ^ 1023" by (rule power_strict_increasing) simp_all
  ultimately show ?thesis unfolding float_overflow_def by linarith
qed

lemma float_pow2_small: "\<bar>x\<bar> \<le> 2 ^ 500 \<Longrightarrow> float_pow2 x = Inr (x ^ 2)"
proof -
  assume a: "\<bar>x\<bar> \<le> 2 ^ 500"
  have "x ^ 2 = \<bar>x\<bar> ^ 2" by simp
  also have "\<dots> \<le> (2 ^ 500) ^ 2" using a by (intro power_mono) simp_all
  also have "\<dots> = (2::real) ^ 1000" by (simp add: power_mult [symmetric])
  finally have "\<bar>x ^ 2\<bar> < float_overflow" using float_overflow_big by simp
  then show ?thesis by (simp add: float_pow2_def float_finite_def)
qed

lemma small_500: "\<bar>x\<bar> \<le> 100 \<Longrightarrow> \<bar>x::real\<bar> \<le> 2 ^ 500"
proof -
  assume "\<bar>x\<bar> \<le> 100"
  moreover have "(100::real) \<le> 2 ^ 7" by simp
  moreover have "(2::real) ^ 7 \<le> 2 ^ 500" by (rule power_increasing) simp_all
  ultimately show ?thesis by linarith
qed

lemma spoke_radius_small:
  "\<bar>dX\<bar> \<le> 100 \<Longrightarrow> \<bar>dY\<bar> \<le> 100 \<Longrightarrow> spoke_radius dX dY = Inr (sqrt (dX ^ 2 + dY ^ 2))"
  by (simp add: spoke_radius_def float_pow2_small small_500 ebind_def)

lemma spoke_radius_3_4: "spoke_radius (- 3) (- 4) = Inr 5"
proof -
  have "sqrt 25 = (5::real)"
    by (rule real_sqrt_unique) simp_all
  then show ?thesis by (simp add: spoke_radius_small)
qed

text \<open>A finite operand whose square is out of range: the power operator raises.\<close>

lemma float_pow2_overflow: "float_pow2 (2 ^ 600) = Inl OverflowError"
proof -
  have a: "(2::real) ^ 600 < 2 ^ 1000" by (rule power_strict_increasing) simp_all
  have "(2::real) ^ 1024 \<le> 2 ^ 1200" by (rule power_increasing) simp_all
  then have b: "float_overflow \<le> (2 ^ 600) ^ 2"
    by (simp add: float_overflow_def power_mult [symmetric])
  show ?thesis using a b float_overflow_big by (simp add: float_pow2_def float_finite_def)
qed

text \<open>What each of the two blocks binds, by the position of its spoke.\<close>

lemma start_spoke_axis:
  "dX1 = 0 \<or> dY1 = 0 \<Longrightarrow>
   \<exists>l'. start_spoke dX1 dY1 l = Inr l' \<and> radius l' \<noteq> None \<and>
     startAngle l' = startAngle l \<and> endAngle l' = endAngle l"
  by (auto simp: start_spoke_def)

lemma start_spoke_off_axis_raises:
  "dX1 \<noteq> 0 \<Longrightarrow> dY1 \<noteq> 0 \<Longrightarrow> spoke_radius dX1 dY1 = Inl e \<Longrightarrow>
   start_spoke dX1 dY1 l = Inl e"
  by (simp add: start_spoke_def ebind_def)

lemma start_spoke_off_axis:
  "dX1 \<noteq> 0 \<Longrightarrow> dY1 \<noteq> 0 \<Longrightarrow> spoke_radius dX1 dY1 = Inr r \<Longrightarrow>
   \<exists>l'. start_spoke dX1 dY1 l = Inr l' \<and> radius l' = Some r \<and>
     startAngle l' \<noteq> None \<and> endAngle l' = endAngle l"
  by (simp add: start_spoke_def ebind_def Let_def)

lemma end_spoke_axis:
  "dX2 = 0 \<or> dY2 = 0 \<Longrightarrow>
   radius (end_spoke dX2 dY2 l) \<noteq> None \<and>
   startAngle (end_spoke dX2 dY2 l) = startAngle l \<and>
   endAngle (end_spoke dX2 dY2 l) = endAngle l"
  by (auto simp: end_spoke_def)

lemma end_spoke_off_axis:
  "dX2 \<noteq> 0 \<Longrightarrow> dY2 \<noteq> 0 \<Longrightarrow>
   radius (end_spoke dX2 dY2 l) = radius l \<and>
   startAngle (end_spoke dX2 dY2 l) = startAngle l \<and>
   endAngle (end_spoke dX2 dY2 l) \<noteq> None"
  by (simp add: end_spoke_def Let_def)

text \<open>
  Claim C1. The arc with start (1,0), centre (0,0), end (0,1) and clockwise
  \<^verbatim>\<open>false\<close> should convert to radius 1 and an angle pair. Both spokes are
  axis-aligned, so lines 163 to 167 and 183 to 187 bind \<^verbatim>\<open>angle1\<close> and
  \<^verbatim>\<open>angle2\<close> only; the return statement on line 208 then reads the unbound
  \<^verbatim>\<open>endAngle\<close> and the call raises instead of returning a triple.
\<close>

theorem convert_PolyStepCurve_quadrant_raises:
  "convert_PolyStepCurve 1 0 0 0 0 1 ''false'' = Inl UnboundLocalError"
  by (simp add: convert_PolyStepCurve_def start_spoke_def end_spoke_def no_locals_def
      ebind_def local_var_def)

text \<open>
  More generally, the conversion raises whenever one of the two spokes is
  axis-aligned: only the off-axis branches bind the names the return reads.
\<close>

lemma convert_PolyStepCurve_axis_aligned_raises:
  assumes "ctrX = startX \<or> ctrY = startY \<or> ctrX = endX \<or> ctrY = endY"
  shows "isl (convert_PolyStepCurve startX startY ctrX ctrY endX endY cw)"
proof (cases "start_spoke (ctrX - startX) (ctrY - startY) no_locals")
  case (Inl e)
  then show ?thesis by (simp add: convert_PolyStepCurve_def ebind_def)
next
  case (Inr l1)
  define l where "l = end_spoke (ctrX - endX) (ctrY - endY) l1"
  have "startAngle l = None \<or> endAngle l = None"
  proof (cases "ctrX = startX \<or> ctrY = startY")
    case True
    then have "startAngle l1 = None"
      using start_spoke_axis [of "ctrX - startX" "ctrY - startY" no_locals] Inr
      by (auto simp: no_locals_def)
    moreover have "startAngle l = startAngle l1"
      using end_spoke_axis [of "ctrX - endX" "ctrY - endY" l1]
        end_spoke_off_axis [of "ctrX - endX" "ctrY - endY" l1]
      by (cases "ctrX = endX \<or> ctrY = endY") (auto simp: l_def)
    ultimately show ?thesis by simp
  next
    case False
    with assms have e: "ctrX = endX \<or> ctrY = endY" by blast
    obtain r where "spoke_radius (ctrX - startX) (ctrY - startY) = Inr r"
      using False Inr start_spoke_off_axis_raises [of "ctrX - startX" "ctrY - startY" _ no_locals]
      by (cases "spoke_radius (ctrX - startX) (ctrY - startY)") auto
    with False have "endAngle l1 = None"
      using start_spoke_off_axis [of "ctrX - startX" "ctrY - startY" r no_locals] Inr
      by (auto simp: no_locals_def)
    with e show ?thesis
      using end_spoke_axis [of "ctrX - endX" "ctrY - endY" l1] by (auto simp: l_def)
  qed
  with Inr show ?thesis
    by (auto simp: convert_PolyStepCurve_def ebind_def local_var_def l_def [symmetric]
        split: option.splits)
qed

lemma convert_PolyStepCurve_radius_3_4:
  "\<exists>a b. convert_PolyStepCurve 3 4 0 0 6 8 ''true'' = Inr (5, a, b)"
proof -
  have "start_spoke (- 3) (- 4) no_locals =
      Inr (no_locals\<lparr>radius := Some 5, angle1 := Some (arctan (3 / 4) * (180 / pi)),
        startAngle := Some (90 + arctan (3 / 4) * (180 / pi))\<rparr>)"
    by (simp add: start_spoke_def spoke_radius_3_4 ebind_def Let_def)
  then show ?thesis
    by (simp add: convert_PolyStepCurve_def end_spoke_def ebind_def local_var_def no_locals_def
        Let_def)
qed

text \<open>
  Claim C4, as stated: when the two spokes have different lengths the radius
  returned is the one of the end spoke. With start (3,4), centre (0,0) and end
  (6,8) the start spoke has length 5 and the end spoke length 10; the
  conversion returns radius 5.
\<close>

theorem convert_PolyStepCurve_radius_counterexample:
  "map_sum id fst (convert_PolyStepCurve 3 4 0 0 6 8 ''true'') = Inr 5 \<and>
   sqrt (\<bar>0 - 6\<bar> ^ 2 + \<bar>0 - 8\<bar> ^ 2) = (10::real)"
proof -
  obtain a b where "convert_PolyStepCurve 3 4 0 0 6 8 ''true'' = Inr (5, a, b)"
    using convert_PolyStepCurve_radius_3_4 by blast
  moreover have "sqrt 100 = (10::real)"
    by (rule real_sqrt_unique) simp_all
  ultimately show ?thesis by simp
qed

text \<open>
  Claim C4, amended. For every arc whose two spokes are both off the axes
  (neither coordinate difference is zero), whatever their lengths, the
  conversion does not compare the two spokes. If the radius computation of
  line 169 raises on the start spoke, the conversion raises the same error;
  otherwise it returns a triple whose radius is the one line 169 computed
  from the start spoke: lines 195 to 203 bind the end angle and leave
  \<^verbatim>\<open>radius\<close> as it was.
\<close>

theorem convert_PolyStepCurve_radius_start_spoke:
  assumes "ctrX \<noteq> startX" and "ctrY \<noteq> startY" and "ctrX \<noteq> endX" and "ctrY \<noteq> endY"
  shows "case spoke_radius (ctrX - startX) (ctrY - startY) of
           Inl e \<Rightarrow> convert_PolyStepCurve startX startY ctrX ctrY endX endY cw = Inl e
         | Inr r \<Rightarrow>
             (\<exists>a b. convert_PolyStepCurve startX startY ctrX ctrY endX endY cw = Inr (r, a, b))"
proof (cases "spoke_radius (ctrX - startX) (ctrY - startY)")
  case (Inl e)
  with assms(1,2) have "start_spoke (ctrX - startX) (ctrY - startY) no_locals = Inl e"
    by (simp add: start_spoke_off_axis_raises)
  with Inl show ?thesis
    by (simp add: convert_PolyStepCurve_def ebind_def)
next
  case (Inr r)
  with assms(1,2) obtain l1 where l1: "start_spoke (ctrX - startX) (ctrY - startY) no_locals = Inr l1"
      "radius l1 = Some r" "startAngle l1 \<noteq> None"
    using start_spoke_off_axis [of "ctrX - startX" "ctrY - startY" r no_locals] by auto
  define l where "l = end_spoke (ctrX - endX) (ctrY - endY) l1"
  from assms(3,4) have "radius l = radius l1" "startAngle l = startAngle l1" "endAngle l \<noteq> None"
    using end_spoke_off_axis [of "ctrX - endX" "ctrY - endY" l1] by (simp_all add: l_def)
  with l1 obtain a b where "radius l = Some r" "startAngle l = Some a" "endAngle l = Some b"
    by auto
  with l1(1) Inr show ?thesis
    by (simp add: convert_PolyStepCurve_def ebind_def local_var_def l_def [symmetric])
qed

theorem convert_PolyStepCurve_radius_start_spoke_witness:
  "(0::real) \<noteq> 3 \<and> (0::real) \<noteq> 4 \<and> (0::real) \<noteq> 6 \<and> (0::real) \<noteq> 8 \<and>
   spoke_radius (0 - 3) (0 - 4) = Inr 5 \<and>
   (\<exists>a b. convert_PolyStepCurve 3 4 0 0 6 8 ''true'' = Inr (5, a, b))"
proof -
  have h3: "(0::real) \<noteq> 3" and h4: "(0::real) \<noteq> 4"
    and h6: "(0::real) \<noteq> 6" and h8: "(0::real) \<noteq> 8"
    by simp_all
  show ?thesis
    using convert_PolyStepCurve_radius_start_spoke [OF h3 h4 h6 h8, of "''true''"]
      spoke_radius_3_4
    by simp
qed

section \<open>Outline width: results\<close>

text \<open>
  The method name on line 313 is not one a document object has, so every call
  of \<^verbatim>\<open>set_outlineWidth\<close> raises before the unit is compared.
\<close>

lemma set_outlineWidth_raises: "set_outlineWidth pcb = Inl AttributeError"
  by (simp add: set_outlineWidth_def document_method_def ebind_def)

text \<open>
  The comparisons of lines 315 to 320, taken alone: the three known units give
  their widths and any other unit falls off the end of the function.
\<close>

lemma outlineWidth_of_unit_values:
  "outlineWidth_of_unit ''INCH'' = PNum 0.005 \<and>
   outlineWidth_of_unit ''MILLIMETER'' = PNum 0.127 \<and>
   outlineWidth_of_unit ''MICRON'' = PNum 127.0 \<and>
   (u \<notin> {''INCH'', ''MILLIMETER'', ''MICRON''} \<longrightarrow> outlineWidth_of_unit u = PNone)"
  by (simp add: outlineWidth_of_unit_def)

text \<open>
  The header of the inch document is where the correctly spelt method finds
  it, and its unit is one of the three known ones.
\<close>

lemma inch_doc_header:
  "map_sum id (\<lambda>h. outlineWidth_of_unit (getAttribute h ''units''))
     (item0 (doc_getElementsByTagName inch_doc ''CadHeader'')) = Inr (PNum 0.005)"
  by (simp add: inch_doc_def doc_getElementsByTagName_def item0_def getAttribute_def
      outlineWidth_of_unit_def)

text \<open>
  Claim C2. For the unit \<^verbatim>\<open>INCH\<close> the resolver should return 0.005 (and the
  other two constants for the other two units). On a document whose header
  declares inches the call raises instead: line 313 asks the document for
  \<^verbatim>\<open>getElementByTagName\<close>, where every other lookup of the file uses
  \<^verbatim>\<open>getElementsByTagName\<close>, and the unit is never compared.
\<close>

theorem set_outlineWidth_inch_raises: "set_outlineWidth inch_doc = Inl AttributeError"
  by (simp add: set_outlineWidth_def document_method_def ebind_def)

section \<open>Poly-step reconstruction: results\<close>

lemma float_dec_0_1: "float_dec ''0'' = Inr 0" "float_dec ''1'' = Inr 1"
  by (simp_all add: float_dec_def unsigned_dec_def digit_of_def)

text \<open>
  Claim C3. The unit square with stroke width \<open>w\<close> should give four segments
  that chain and that all carry width \<open>w\<close>. The four segments are emitted and
  they chain, but line 235 stores the width under the key \<^verbatim>\<open>wdith\<close>: no
  segment has a \<^verbatim>\<open>width\<close> entry, which is the key the arc of line 244 uses.
\<close>

theorem process_PolyStep_square:
  "process_PolyStep float_dec square_poly w =
     Inr [[(''type'', PStr ''segment''), (''start'', PList [PNum 0, PNum 0]),
           (''end'', PList [PNum 1, PNum 0]), (''wdith'', w)],
          [(''type'', PStr ''segment''), (''start'', PList [PNum 1, PNum 0]),
           (''end'', PList [PNum 1, PNum 1]), (''wdith'', w)],
          [(''type'', PStr ''segment''), (''start'', PList [PNum 1, PNum 1]),
           (''end'', PList [PNum 0, PNum 1]), (''wdith'', w)],
          [(''type'', PStr ''segment''), (''start'', PList [PNum 0, PNum 1]),
           (''end'', PList [PNum 0, PNum 0]), (''wdith'', w)]] \<and>
   map_sum id (map (\<lambda>d. map_of d ''width'')) (process_PolyStep float_dec square_poly w) =
     Inr [None, None, None, None]"
  by (simp add: process_PolyStep_def square_poly_def step_el_def poly_step_def ebind_def
      getAttribute_def float_dec_0_1)

section \<open>Validation gate: results\<close>

text \<open>
  When the parsed document's first child is an element whose tag is not
  \<^verbatim>\<open>IPC-2581\<close>, or whose revision attribute compares greater than \<^verbatim>\<open>C\<close>,
  \<^verbatim>\<open>_parse\<close> logs one error and returns the pair of \<^verbatim>\<open>None\<close>: no board data
  and no component list, whatever the extraction after the gate would do.
\<close>

lemma private_parse_invalid_no_data:
  assumes "minidom_parse h (file_name self) = Inr pcb"
    and "firstChild pcb = Some (ElementNode fc)"
    and "tagName fc \<noteq> ''IPC-2581'' \<or> getAttribute fc ''revision'' > ''C''"
  shows "\<exists>msg. private_parse h self = Inr ([LogError msg], None, None)"
  using assms
  by (auto simp: private_parse_def validate_IPC2581_def ebind_def COMPATIBLE_IPC_REV_def
      Let_def)

lemma private_parse_revision_D:
  "minidom_parse (example_host revision_D_doc) (file_name example_parser) = Inr revision_D_doc \<and>
   firstChild revision_D_doc = Some (ElementNode revision_D_root) \<and>
   getAttribute revision_D_root ''revision'' > ''C'' \<and>
   (\<exists>msg. private_parse (example_host revision_D_doc) example_parser =
      Inr ([LogError msg], None, None))"
proof -
  have a: "minidom_parse (example_host revision_D_doc) (file_name example_parser)
      = Inr revision_D_doc"
    by (simp add: example_host_def)
  have b: "firstChild revision_D_doc = Some (ElementNode revision_D_root)"
    by (simp add: firstChild_def revision_D_doc_def)
  have c: "getAttribute revision_D_root ''revision'' > ''C''"
    by (simp add: revision_D_root_def getAttribute_def)
  from c have d: "tagName revision_D_root \<noteq> ''IPC-2581'' \<or>
      getAttribute revision_D_root ''revision'' > ''C''"
    by (rule disjI2)
  show ?thesis
    using a b c private_parse_invalid_no_data [OF a b d] by simp
qed

text \<open>
  When the first child is not an element (a comment, a document type or a
  processing instruction before the root element), reading its tag name on
  line 92 raises, whatever the root element is.
\<close>

lemma private_parse_first_child_not_element:
  "minidom_parse h (file_name self) = Inr pcb \<Longrightarrow> firstChild pcb = Some OtherNode \<Longrightarrow>
   private_parse h self = Inl AttributeError"
  by (simp add: private_parse_def validate_IPC2581_def ebind_def)

text \<open>
  Claim C5. A document whose root element does not carry the tag \<^verbatim>\<open>IPC-2581\<close>
  should make the parse return no data. The comment on line 91 speaks of the
  root element, but line 92 reads the tag of the document's first child. In a
  document whose root element \<^verbatim>\<open>Board\<close> follows a comment, the first child is
  the comment, and the parse raises instead of returning the pair of \<^verbatim>\<open>None\<close>.
\<close>

theorem private_parse_leading_comment_raises:
  "private_parse (example_host leading_comment_doc) example_parser = Inl AttributeError"
  by (simp add: private_parse_def validate_IPC2581_def ebind_def example_host_def
      leading_comment_doc_def firstChild_def)

section \<open>Layer drawings: results\<close>

lemma polyline_step_dangling:
  "getElementsByTagName P ''LineDescRef'' = r # rs \<Longrightarrow>
   map_of lines (getAttribute r ''id'') = None \<Longrightarrow>
   polyline_step flt lines ds P = Inl KeyError"
  by (simp add: polyline_step_def item0_def dict_item_def ebind_def)

text \<open>A loop whose body raises on one of its elements, whatever it has collected, raises.\<close>

lemma polylines_loop_raises:
  "P \<in> set polys \<Longrightarrow> (\<And>ds. isl (polyline_step flt lines ds P)) \<Longrightarrow>
   isl (polylines_loop flt lines ds polys)"
proof (induction polys arbitrary: ds)
  case Nil
  then show ?case by simp
next
  case (Cons p ps)
  show ?case
  proof (cases "polyline_step flt lines ds p")
    case (Inl e)
    then show ?thesis by (simp add: ebind_def)
  next
    case (Inr ds')
    with Cons.prems(2) [of ds] have "P \<noteq> p" by auto
    with Cons.prems(1) have "P \<in> set ps" by simp
    then have "isl (polylines_loop flt lines ds' ps)"
      using Cons.prems(2) by (rule Cons.IH)
    with Inr show ?thesis by (simp add: ebind_def)
  qed
qed

lemma layer_features_loop_raises:
  "L \<in> set Ls \<Longrightarrow> getAttribute L ''layerRef'' = name \<Longrightarrow>
   (\<And>ds. isl (polylines_loop flt lines ds (getElementsByTagName L ''Polyline''))) \<Longrightarrow>
   isl (layer_features_loop flt name lines ds Ls)"
proof (induction Ls arbitrary: ds)
  case Nil
  then show ?case by simp
next
  case (Cons F Fs)
  show ?case
  proof (cases "getAttribute F ''layerRef'' = name")
    case False
    with Cons.prems(1,2) have "L \<in> set Fs" by auto
    then have "isl (layer_features_loop flt name lines ds Fs)"
      using Cons.prems(2,3) by (rule Cons.IH)
    with False show ?thesis by simp
  next
    case True
    show ?thesis
    proof (cases "polylines_loop flt lines ds (getElementsByTagName F ''Polyline'')")
      case (Inl e)
      with True show ?thesis by (simp add: ebind_def)
    next
      case (Inr ds')
      with Cons.prems(3) [of ds] have "L \<noteq> F" by auto
      with Cons.prems(1) have "L \<in> set Fs" by simp
      then have "isl (layer_features_loop flt name lines ds' Fs)"
        using Cons.prems(2,3) by (rule Cons.IH)
      with True Inr show ?thesis by (simp add: ebind_def)
    qed
  qed
qed

text \<open>
  Claim C6. If a layer feature of the requested layer holds a polyline whose
  first line reference names an id that is not a key of the width table, the
  extraction raises: it returns no drawing list, so no polyline is skipped and
  no width is made up.
\<close>

theorem get_LayerDrawings_dangling_raises:
  assumes "L \<in> set (doc_getElementsByTagName pcb ''LayerFeature'')"
    and "getAttribute L ''layerRef'' = name"
    and "P \<in> set (getElementsByTagName L ''Polyline'')"
    and "getElementsByTagName P ''LineDescRef'' = r # rs"
    and "map_of lines (getAttribute r ''id'') = None"
  shows "isl (get_LayerDrawings flt pcb (Some name) lines)"
proof -
  have "\<And>ds. isl (polyline_step flt lines ds P)"
    using assms(4,5) by (simp add: polyline_step_dangling)
  then have "\<And>ds. isl (polylines_loop flt lines ds (getElementsByTagName L ''Polyline''))"
    using assms(3) by (rule polylines_loop_raises [rotated])
  then have "isl (layer_features_loop flt name lines []
      (doc_getElementsByTagName pcb ''LayerFeature''))"
    using assms(1,2) by (intro layer_features_loop_raises)
  then show ?thesis by (simp add: get_LayerDrawings_def)
qed

theorem get_LayerDrawings_dangling_raises_witness:
  "dangling_feature \<in> set (doc_getElementsByTagName dangling_doc ''LayerFeature'') \<and>
   getAttribute dangling_feature ''layerRef'' = ''SILK_TOP'' \<and>
   dangling_polyline \<in> set (getElementsByTagName dangling_feature ''Polyline'') \<and>
   getElementsByTagName dangling_polyline ''LineDescRef'' = [dangling_ref] \<and>
   map_of [(''W1'', ''0.1'')] (getAttribute dangling_ref ''id'') = None \<and>
   isl (get_LayerDrawings float_dec dangling_doc (Some ''SILK_TOP'') [(''W1'', ''0.1'')])"
proof -
  have a: "dangling_feature \<in> set (doc_getElementsByTagName dangling_doc ''LayerFeature'')"
    by (simp add: doc_getElementsByTagName_def dangling_doc_def dangling_feature_def
        dangling_polyline_def)
  have b: "getAttribute dangling_feature ''layerRef'' = ''SILK_TOP''"
    by (simp add: getAttribute_def dangling_feature_def)
  have c: "dangling_polyline \<in> set (getElementsByTagName dangling_feature ''Polyline'')"
    by (simp add: getElementsByTagName_def dangling_feature_def dangling_polyline_def)
  have d: "getElementsByTagName dangling_polyline ''LineDescRef'' = [dangling_ref]"
    by (simp add: getElementsByTagName_def dangling_polyline_def dangling_ref_def step_el_def)
  have e: "map_of [(''W1'', ''0.1'')] (getAttribute dangling_ref ''id'') = None"
    by (simp add: getAttribute_def dangling_ref_def)
  show ?thesis
    using a b c d e get_LayerDrawings_dangling_raises [OF a b c d e] by simp
qed

text \<open>
  Claim C9. With no layer name (\<^verbatim>\<open>None\<close>) the extraction returns the empty list
  of drawings for every document and every width table, and raises nothing.
\<close>

theorem get_LayerDrawings_absent_layer: "get_LayerDrawings flt pcb None lines = Inr []"
  by (simp add: get_LayerDrawings_def)

section \<open>Layer roles: results\<close>

lemma foldl_layer_step_unmapped:
  "\<forall>u \<in> set us. getAttribute u ''side'' \<notin> {''TOP'', ''BOTTOM''} \<or>
       getAttribute u ''layerFunction'' \<notin> {''DOCUMENT'', ''CONDUCTOR'', ''ASSEMBLY''}
   \<Longrightarrow> foldl layer_step r us = r"
  by (induction us arbitrary: r) (auto simp: layer_step_def Let_def)

text \<open>
  Claim C7. If the layer declarations of a document are one layer with side
  \<^verbatim>\<open>TOP\<close>, function \<^verbatim>\<open>CONDUCTOR\<close> and name \<open>n\<close>, and around it any number of
  layers whose side is neither \<^verbatim>\<open>TOP\<close> nor \<^verbatim>\<open>BOTTOM\<close> or whose function is none
  of \<^verbatim>\<open>DOCUMENT\<close>, \<^verbatim>\<open>CONDUCTOR\<close>, \<^verbatim>\<open>ASSEMBLY\<close>, then the resolver returns \<open>n\<close> as
  the top copper layer and \<^verbatim>\<open>None\<close> for the five other roles. The resolver
  returns a value for every document: it has no raising path.
\<close>

theorem get_LayerNames_top_copper_only:
  assumes "doc_getElementsByTagName pcb ''Layer'' = us @ [l] @ vs"
    and "getAttribute l ''side'' = ''TOP''"
    and "getAttribute l ''layerFunction'' = ''CONDUCTOR''"
    and "getAttribute l ''name'' = n"
    and "\<forall>u \<in> set (us @ vs). getAttribute u ''side'' \<notin> {''TOP'', ''BOTTOM''} \<or>
       getAttribute u ''layerFunction'' \<notin> {''DOCUMENT'', ''CONDUCTOR'', ''ASSEMBLY''}"
  shows "get_LayerNames pcb =
     \<lparr>TopCuRef = Some n, BotCuRef = None, TopSilkRef = None,
      BotSilkRef = None, TopAsmRef = None, BotAsmRef = None\<rparr>"
proof -
  have u: "foldl layer_step no_layer_refs us = no_layer_refs"
    using assms(5) by (intro foldl_layer_step_unmapped) auto
  have v: "\<And>r. foldl layer_step r vs = r"
    using assms(5) by (intro foldl_layer_step_unmapped) auto
  have "get_LayerNames pcb = layer_step no_layer_refs l"
    by (simp add: get_LayerNames_def assms(1) u v)
  then show ?thesis
    using assms(2-4) by (simp add: layer_step_def no_layer_refs_def)
qed

theorem get_LayerNames_top_copper_only_witness:
  "doc_getElementsByTagName layers_doc ''Layer'' = [drill_layer] @ [top_copper_layer] @ [] \<and>
   getAttribute top_copper_layer ''side'' = ''TOP'' \<and>
   getAttribute top_copper_layer ''layerFunction'' = ''CONDUCTOR'' \<and>
   getAttribute top_copper_layer ''name'' = ''L1'' \<and>
   getAttribute drill_layer ''side'' \<notin> {''TOP'', ''BOTTOM''} \<and>
   get_LayerNames layers_doc =
     \<lparr>TopCuRef = Some ''L1'', BotCuRef = None, TopSilkRef = None,
      BotSilkRef = None, TopAsmRef = None, BotAsmRef = None\<rparr>"
proof -
  have a: "doc_getElementsByTagName layers_doc ''Layer''
      = [drill_layer] @ [top_copper_layer] @ []"
    by (simp add: doc_getElementsByTagName_def layers_doc_def drill_layer_def
        top_copper_layer_def)
  have b: "getAttribute top_copper_layer ''side'' = ''TOP''"
    by (simp add: getAttribute_def top_copper_layer_def)
  have c: "getAttribute top_copper_layer ''layerFunction'' = ''CONDUCTOR''"
    by (simp add: getAttribute_def top_copper_layer_def)
  have d: "getAttribute top_copper_layer ''name'' = ''L1''"
    by (simp add: getAttribute_def top_copper_layer_def)
  have e: "getAttribute drill_layer ''side'' \<notin> {''TOP'', ''BOTTOM''}"
    by (simp add: getAttribute_def drill_layer_def)
  then have f: "\<forall>u \<in> set ([drill_layer] @ []).
      getAttribute u ''side'' \<notin> {''TOP'', ''BOTTOM''} \<or>
      getAttribute u ''layerFunction'' \<notin> {''DOCUMENT'', ''CONDUCTOR'', ''ASSEMBLY''}"
    by simp
  show ?thesis
    using a b c d e get_LayerNames_top_copper_only [OF a b c d f] by simp
qed

section \<open>Components: results\<close>

lemma component_val_loop_last:
  "component_val_loop v es =
     (case filter (\<lambda>e. getAttribute e ''name'' = ''VALUE'') es of
        [] \<Rightarrow> v
      | f # fs \<Rightarrow> getAttribute (last (f # fs)) ''value'')"
  by (induction es arbitrary: v) (auto split: list.splits)

lemma extra_fields_loop_last:
  "map_of (extra_fields_loop ef es) k =
     (case filter (\<lambda>e. getAttribute e ''name'' = k) es of
        [] \<Rightarrow> map_of ef k
      | f # fs \<Rightarrow> Some (getAttribute (last (f # fs)) ''value''))"
  by (induction es arbitrary: ef) (auto simp: update_conv' split: list.splits)

text \<open>
  Claim C8. For every component element, the resolved value is the value of
  the last nonstandard attribute named \<^verbatim>\<open>VALUE\<close>, and the \<^verbatim>\<open>part\<close> attribute
  when there is none. The extra-fields dictionary maps every name \<open>k\<close> (the
  name \<^verbatim>\<open>VALUE\<close> included) to the value of the last nonstandard attribute of
  that name, unchanged, and has no entry for a name that no nonstandard
  attribute carries.
\<close>

theorem make_Component_value_and_extra_fields:
  "val (make_Component c) =
     (case filter (\<lambda>e. getAttribute e ''name'' = ''VALUE'')
             (getElementsByTagName c ''NonstandardAttribute'') of
        [] \<Rightarrow> getAttribute c ''part''
      | f # fs \<Rightarrow> getAttribute (last (f # fs)) ''value'') \<and>
   map_of (extra_fields (make_Component c)) k =
     (case filter (\<lambda>e. getAttribute e ''name'' = k)
             (getElementsByTagName c ''NonstandardAttribute'') of
        [] \<Rightarrow> None
      | f # fs \<Rightarrow> Some (getAttribute (last (f # fs)) ''value''))"
  by (simp add: make_Component_def get_Component_Val_def component_val_loop_last
      extra_fields_loop_last Let_def split: list.splits)

text \<open>The resistor of the examples: the vendor value replaces the part number and is kept as a field.\<close>

lemma make_Component_r1:
  "make_Component r1_component =
     \<lparr>ref = ''R1'', val = ''10k'', footprint = [], layer = [], attr = ''Normal'',
      extra_fields = [(''VALUE'', ''10k'')]\<rparr>"
  by (simp add: make_Component_def r1_component_def getElementsByTagName_def getAttribute_def
      get_Component_Val_def)

section \<open>Extra field data: results\<close>

text \<open>
  Claim C10. The query returns \<^verbatim>\<open>None\<close> exactly when the absolute path of the
  file name it is given differs from the absolute path of the parser's own
  file; with a differing path the parse is not consulted, and with a matching
  path the answer is built from the components of a fresh parse (or the call
  raises).
\<close>

theorem get_extra_field_data_other_file:
  "get_extra_field_data h self fname = Inr None \<longleftrightarrow>
     abspath h fname \<noteq> abspath h (file_name self)"
  by (auto simp: get_extra_field_data_def ebind_def split: sum.splits option.splits)

theorem get_extra_field_data_other_file_witness:
  "abspath (example_host revision_D_doc) ''other.xml''
     \<noteq> abspath (example_host revision_D_doc) (file_name example_parser) \<and>
   get_extra_field_data (example_host revision_D_doc) example_parser ''other.xml'' = Inr None"
  using get_extra_field_data_other_file [of "example_host revision_D_doc" example_parser "''other.xml''"]
  by (simp add: example_host_def example_parser_def)

end
